theory Spec2Isabelle
  imports Main "HOL-Library.Char_ord" "HOL-Library.List_Lexorder"
begin

section \<open>JavaScript values and errors\<close>

text \<open>
  The program is the Electron main-process module \<^verbatim>\<open>main.js\<close>. The values it handles
  come from \<^verbatim>\<open>JSON.parse\<close> (through \<^verbatim>\<open>response.json()\<close>) and from property reads on
  them, so a JavaScript value is a JSON value or \<^verbatim>\<open>undefined\<close>. Strings are lists of
  8-bit characters; the payload of a number is never inspected by the program.
\<close>

datatype json =
    JNull
  | JBool bool
  | JNum int
  | JStr string
  | JArr "json list"
  | JObj "(string \<times> json) list"

text \<open>\<open>None\<close> is \<^verbatim>\<open>undefined\<close>.\<close>

type_synonym jsval = "json option"

datatype error =
    TypeError string
  | ReferenceError string
  | SyntaxError string
  | Rejected string

text \<open>
  The property read \<^verbatim>\<open>x.name\<close>, for the two names the program reads (\<^verbatim>\<open>version\<close> and
  \<^verbatim>\<open>latest\<close>), which no built-in prototype defines: it throws on \<^verbatim>\<open>null\<close>, gives the own
  property of an object, and \<^verbatim>\<open>undefined\<close> on every other value. The association list
  of \<open>JObj\<close> holds the own properties of the parsed object.
\<close>

fun get_property :: "json \<Rightarrow> string \<Rightarrow> error + jsval" where
  "get_property JNull name = Inl (TypeError ''Cannot read properties of null'')"
| "get_property (JObj props) name = Inr (map_of props name)"
| "get_property _ name = Inr None"

section \<open>Semantic versions\<close>

text \<open>
  \<^verbatim>\<open>semver.gt\<close> belongs to the npm package \<^verbatim>\<open>semver\<close>, which is not part of this
  repository. It is modelled here from the package's documented behaviour in its default
  (strict) mode: both arguments are parsed by the \<^verbatim>\<open>SemVer\<close> constructor, which throws
  a \<^verbatim>\<open>TypeError\<close> on anything that is not a version, and the parsed versions are compared
  by \<^verbatim>\<open>compareMain\<close> and \<^verbatim>\<open>comparePre\<close>. The numbers of JavaScript are doubles; those that
  the library computes with are integers, and the model has them as integers.
\<close>

definition MAX_LENGTH :: nat where
  "MAX_LENGTH = 256"

definition MAX_SAFE_INTEGER :: int where
  "MAX_SAFE_INTEGER = 9007199254740991"

definition is_digit :: "char \<Rightarrow> bool" where
  "is_digit c = (c \<in> set ''0123456789'')"

definition is_letter_dash_number :: "char \<Rightarrow> bool" where
  "is_letter_dash_number c =
     (c \<in> set ''abcdefghijklmnopqrstuvwxyzABCDEFGHIJKLMNOPQRSTUVWXYZ0123456789-'')"

text \<open>The white space of \<^verbatim>\<open>String.prototype.trim\<close> among the 8-bit characters.\<close>

definition is_white_space :: "char \<Rightarrow> bool" where
  "is_white_space c = (of_char c \<in> set [9, 10, 11, 12, 13, 32, 160 :: nat])"

definition trim :: "string \<Rightarrow> string" where
  "trim s = rev (dropWhile is_white_space (rev (dropWhile is_white_space s)))"

text \<open>\<^verbatim>\<open>s.split(sep)\<close> for a one-character separator.\<close>

fun split_on :: "char \<Rightarrow> string \<Rightarrow> string list" where
  "split_on sep [] = [[]]"
| "split_on sep (c # cs) =
     (if c = sep then [] # split_on sep cs
      else (case split_on sep cs of p # ps \<Rightarrow> (c # p) # ps | [] \<Rightarrow> [[c]]))"

text \<open>The value of a string of decimal digits.\<close>

definition to_number :: "string \<Rightarrow> int" where
  "to_number s = foldl (\<lambda>n c. 10 * n + (of_char c - 48)) 0 s"

text \<open>The token \<^verbatim>\<open>0|[1-9]\d*\<close>.\<close>

definition numeric_identifier :: "string \<Rightarrow> bool" where
  "numeric_identifier s =
     (s = ''0'' \<or> (s \<noteq> [] \<and> list_all is_digit s \<and> hd s \<noteq> CHR ''0''))"

text \<open>The token \<^verbatim>\<open>0|[1-9]\d*|\d*[a-zA-Z-][a-zA-Z0-9-]*\<close>.\<close>

definition prerelease_identifier :: "string \<Rightarrow> bool" where
  "prerelease_identifier s =
     (numeric_identifier s \<or>
      (list_all is_letter_dash_number s \<and> \<not> list_all is_digit s))"

text \<open>The token \<^verbatim>\<open>[a-zA-Z0-9-]+\<close>.\<close>

definition build_identifier :: "string \<Rightarrow> bool" where
  "build_identifier s = (s \<noteq> [] \<and> list_all is_letter_dash_number s)"

text \<open>Everything after the first occurrence of a character, if it occurs.\<close>

definition after_first :: "char \<Rightarrow> string \<Rightarrow> string option" where
  "after_first c s = (case dropWhile (\<lambda>x. x \<noteq> c) s of [] \<Rightarrow> None | _ # r \<Rightarrow> Some r)"

text \<open>
  The match of the pattern
  \<^verbatim>\<open>^v?(N)\.(N)\.(N)(?:-(P(?:\.P)*))?(?:\+(B(?:\.B)*))?$\<close>:
  the three numbers, the pre-release identifiers and the build identifiers. The numbers
  hold digits and dots only and a pre-release holds no plus sign, so the build starts
  at the first plus sign and the pre-release at the first hyphen before it.
\<close>

definition match_full :: "string \<Rightarrow> (string list \<times> string list \<times> string list) option" where
  "match_full s =
     (let s0 = (case s of c # r \<Rightarrow> if c = CHR ''v'' then r else s | [] \<Rightarrow> s);
          main_pre = takeWhile (\<lambda>x. x \<noteq> CHR ''+'') s0;
          main = split_on (CHR ''.'') (takeWhile (\<lambda>x. x \<noteq> CHR ''-'') main_pre);
          pre = (case after_first (CHR ''-'') main_pre of
                   None \<Rightarrow> [] | Some p \<Rightarrow> split_on (CHR ''.'') p);
          bld = (case after_first (CHR ''+'') s0 of
                   None \<Rightarrow> [] | Some b \<Rightarrow> split_on (CHR ''.'') b)
      in if length main = 3 \<and> list_all numeric_identifier main
            \<and> list_all prerelease_identifier pre \<and> list_all build_identifier bld
         then Some (main, pre, bld) else None)"

text \<open>
  A pre-release identifier of a parsed version is a JavaScript number or a JavaScript
  string.
\<close>

datatype ident = IdNumber int | IdString string

record semver =
  major :: int
  minor :: int
  patch :: int
  prerelease :: "ident list"
  build :: "string list"

text \<open>
  The constructor turns an identifier of digits into a number only if the number is below
  \<^verbatim>\<open>MAX_SAFE_INTEGER\<close>, and keeps every other identifier as the string it is. The
  conversion \<^verbatim>\<open>+id\<close> is exact below that bound and gives a number above it otherwise.
\<close>

definition to_identifier :: "string \<Rightarrow> ident" where
  "to_identifier s =
     (if s \<noteq> [] \<and> list_all is_digit s \<and> to_number s < MAX_SAFE_INTEGER
      then IdNumber (to_number s) else IdString s)"

text \<open>The constructor \<^verbatim>\<open>new SemVer(version)\<close>.\<close>

definition SemVer :: "jsval \<Rightarrow> error + semver" where
  "SemVer v =
     (case v of
        Some (JStr version) \<Rightarrow>
          if length version > MAX_LENGTH
          then Inl (TypeError ''version is longer than 256 characters'')
          else (case match_full (trim version) of
                  None \<Rightarrow> Inl (TypeError ''Invalid Version'')
                | Some (main, pre, bld) \<Rightarrow>
                    let ma = to_number (main ! 0);
                        mi = to_number (main ! 1);
                        pa = to_number (main ! 2)
                    in if ma > MAX_SAFE_INTEGER then Inl (TypeError ''Invalid major version'')
                       else if mi > MAX_SAFE_INTEGER then Inl (TypeError ''Invalid minor version'')
                       else if pa > MAX_SAFE_INTEGER then Inl (TypeError ''Invalid patch version'')
                       else Inr \<lparr>major = ma, minor = mi, patch = pa,
                                 prerelease = map to_identifier pre, build = bld\<rparr>)
      | _ \<Rightarrow> Inl (TypeError ''Invalid version. Must be a string.''))"

text \<open>The order of JavaScript strings: by character code, a proper prefix first.\<close>

fun string_less :: "string \<Rightarrow> string \<Rightarrow> bool" where
  "string_less [] [] = False"
| "string_less [] (y # ys) = True"
| "string_less (x # xs) [] = False"
| "string_less (x # xs) (y # ys) =
     (if x = y then string_less xs ys else (of_char x :: nat) < of_char y)"

text \<open>
  The double nearest to a natural number, ties going to the even significand: what the
  conversion \<^verbatim>\<open>+a\<close> of a string of digits gives. A double has 53 significant bits; a
  string of at most 256 digits is far below the largest double.
\<close>

function bit_length :: "int \<Rightarrow> nat" where
  "bit_length n = (if n \<le> 0 then 0 else Suc (bit_length (n div 2)))"
  by pat_completeness auto
termination
  by (relation "measure nat") auto

definition to_double :: "int \<Rightarrow> int" where
  "to_double n =
     (if n < 2 ^ 53 then n
      else let e = bit_length n - 53;
               q = n div 2 ^ e;
               r = n mod 2 ^ e;
               half = 2 ^ (e - 1)
           in (if half < r \<or> (r = half \<and> odd q) then q + 1 else q) * 2 ^ e)"

text \<open>
  \<^verbatim>\<open>numeric.test(a)\<close> with the pattern \<^verbatim>\<open>/^[0-9]+$/\<close>: a number is tested through its
  decimal text, which for the integers that occur here consists of digits.
\<close>

fun numeric :: "ident \<Rightarrow> bool" where
  "numeric (IdNumber n) = True"
| "numeric (IdString s) = (s \<noteq> [] \<and> list_all is_digit s)"

text \<open>The conversion \<^verbatim>\<open>+a\<close> of an identifier that passes the test.\<close>

fun unary_plus :: "ident \<Rightarrow> int" where
  "unary_plus (IdNumber n) = n"
| "unary_plus (IdString s) = to_double (to_number s)"

text \<open>
  \<^verbatim>\<open>a < b\<close> where neither identifier passes the test, so that both are strings.
\<close>

fun ident_string_less :: "ident \<Rightarrow> ident \<Rightarrow> bool" where
  "ident_string_less (IdString a) (IdString b) = string_less a b"
| "ident_string_less _ _ = False"

text \<open>
  \<^verbatim>\<open>compareIdentifiers\<close>: two identifiers that pass the test are compared as numbers,
  after the conversion; otherwise equal identifiers compare equal, one that passes the
  test is below one that does not, and two strings compare as strings.
\<close>

definition compareIdentifiers :: "ident \<Rightarrow> ident \<Rightarrow> int" where
  "compareIdentifiers a b =
     (let anum = numeric a; bnum = numeric b
      in if anum \<and> bnum
         then (if unary_plus a = unary_plus b then 0
               else if unary_plus a < unary_plus b then - 1 else 1)
         else if a = b then 0
         else if anum \<and> \<not> bnum then - 1
         else if bnum \<and> \<not> anum then 1
         else if ident_string_less a b then - 1 else 1)"

text \<open>JavaScript's \<^verbatim>\<open>a || b\<close> on numbers.\<close>

definition or_else :: "int \<Rightarrow> int \<Rightarrow> int" where
  "or_else a b = (if a \<noteq> 0 then a else b)"

definition compareMain :: "semver \<Rightarrow> semver \<Rightarrow> int" where
  "compareMain a b =
     or_else (compareIdentifiers (IdNumber (major a)) (IdNumber (major b)))
       (or_else (compareIdentifiers (IdNumber (minor a)) (IdNumber (minor b)))
          (compareIdentifiers (IdNumber (patch a)) (IdNumber (patch b))))"

text \<open>The loop of \<^verbatim>\<open>comparePre\<close> over the two identifier lists.\<close>

fun compare_identifier_lists :: "ident list \<Rightarrow> ident list \<Rightarrow> int" where
  "compare_identifier_lists [] [] = 0"
| "compare_identifier_lists (a # as) [] = 1"
| "compare_identifier_lists [] (b # bs) = - 1"
| "compare_identifier_lists (a # as) (b # bs) =
     (if a = b then compare_identifier_lists as bs else compareIdentifiers a b)"

text \<open>A version without a pre-release is above the same version with one.\<close>

definition comparePre :: "semver \<Rightarrow> semver \<Rightarrow> int" where
  "comparePre a b =
     (if prerelease a \<noteq> [] \<and> prerelease b = [] then - 1
      else if prerelease a = [] \<and> prerelease b \<noteq> [] then 1
      else if prerelease a = [] \<and> prerelease b = [] then 0
      else compare_identifier_lists (prerelease a) (prerelease b))"

text \<open>
  \<^verbatim>\<open>compare\<close>. The method first returns 0 when the two canonical texts are equal; two
  versions with equal canonical texts have equal numbers and equal pre-release
  identifiers, for which the two comparisons below give 0 as well.
\<close>

definition compare :: "semver \<Rightarrow> semver \<Rightarrow> int" where
  "compare a b = or_else (compareMain a b) (comparePre a b)"

text \<open>\<^verbatim>\<open>semver.gt(a, b)\<close>: the first argument is parsed first.\<close>

definition semver_gt :: "jsval \<Rightarrow> jsval \<Rightarrow> error + bool" where
  "semver_gt a b =
     (case SemVer a of
        Inl e \<Rightarrow> Inl e
      | Inr x \<Rightarrow> (case SemVer b of Inl e \<Rightarrow> Inl e | Inr y \<Rightarrow> Inr (compare x y > 0)))"

section \<open>The host of the program\<close>

text \<open>
  The dialogs of the program. Their titles and messages are fixed texts, left out here;
  the question carries the \<^verbatim>\<open>latestVersion\<close> that its message interpolates and is the
  only dialog with buttons (two: index 0 is the "yes" button, index 1 the "no" button).
\<close>

datatype message_box =
    UpdateQuestion jsval
  | DownloadingInfo
  | DownloadCompleteInfo
  | DownloadErrorBox

text \<open>
  What the program does to the world outside it, one constructor for each call:
  \<^verbatim>\<open>fetch\<close>, \<^verbatim>\<open>dialog.showMessageBox\<close>, \<^verbatim>\<open>download\<close> of electron-dl, \<^verbatim>\<open>exec\<close>,
  \<^verbatim>\<open>app.exit\<close> with its exit code, \<^verbatim>\<open>console.error\<close> and \<^verbatim>\<open>console.log\<close> with their
  two arguments, and \<^verbatim>\<open>shell.openExternal\<close>.
\<close>

datatype effect =
    Fetch string
  | ShowMessageBox message_box
  | Download jsval
  | Exec string
  | AppExit int
  | ConsoleError string error
  | ConsoleLog string string
  | OpenExternal string

text \<open>
  What the world answers. \<open>fetch\<close> gives the promise of \<^verbatim>\<open>fetch(url)\<close>: rejected, or a
  response whose \<^verbatim>\<open>json()\<close> promise is rejected or gives the parsed body.
  \<open>showMessageBox\<close> gives the index of the button that closes the dialog. \<open>download\<close>
  gives the promise of electron-dl's \<^verbatim>\<open>download\<close>: rejected, or a download item, of which
  the program reads \<^verbatim>\<open>getSavePath()\<close> only. \<open>exec\<close> gives the arguments of the callback
  of \<^verbatim>\<open>exec\<close>: an error, or no error and the standard output.
\<close>

record host =
  fetch :: "string \<Rightarrow> error + (error + json)"
  getVersion :: string
  showMessageBox :: "message_box \<Rightarrow> nat"
  download :: "jsval \<Rightarrow> error + string"
  exec :: "string \<Rightarrow> error + string"

section \<open>The update cycle\<close>

definition manifest_url :: string where
  "manifest_url =
     ''https://raw.githubusercontent.com/habibi-dev/Bale-windows/refs/heads/master/package.json''"

text \<open>The command line \<^verbatim>\<open>`start "" "${filePath}"`\<close>.\<close>

definition start_command :: "string \<Rightarrow> string" where
  \<open>start_command filePath = ''start "" "'' @ filePath @ ''"''\<close>

text \<open>
  \<^verbatim>\<open>downloadAndInstallUpdate\<close>: the effects in the order in which they happen. The two
  promise callbacks and the callback of \<^verbatim>\<open>exec\<close> run after the function has returned;
  \<^verbatim>\<open>app.exit()\<close> exits with the default code 0. The dialogs, \<^verbatim>\<open>getSavePath\<close> and the call
  of \<^verbatim>\<open>exec\<close> are taken not to throw, so the \<^verbatim>\<open>catch\<close> callback runs for a rejected
  download only.
\<close>

definition downloadAndInstallUpdate :: "host \<Rightarrow> jsval \<Rightarrow> effect list" where
  "downloadAndInstallUpdate h downloadLink =
     [ShowMessageBox DownloadingInfo, Download downloadLink] @
     (case download h downloadLink of
        Inr filePath \<Rightarrow>
          [ShowMessageBox DownloadCompleteInfo, Exec (start_command filePath)] @
          (case exec h (start_command filePath) of
             Inl err \<Rightarrow> [ConsoleError ''Error launching installer:'' err]
           | Inr stdout \<Rightarrow> [AppExit 0, ConsoleLog ''Installer started:'' stdout])
      | Inl err \<Rightarrow>
          [ConsoleError ''Error downloading update:'' err, ShowMessageBox DownloadErrorBox])"

text \<open>
  The \<^verbatim>\<open>try\<close> block of \<^verbatim>\<open>checkForUpdates\<close> after the call of \<^verbatim>\<open>fetch\<close>: the error
  thrown, or the effects of a block that completes. Every statement of the block that
  can throw comes before its first effect.
\<close>

definition try_block :: "host \<Rightarrow> error + effect list" where
  "try_block h =
     (case fetch h manifest_url of
        Inl e \<Rightarrow> Inl e
      | Inr response \<Rightarrow>
     (case response of
        Inl e \<Rightarrow> Inl e
      | Inr latestData \<Rightarrow>
     (let currentVersion = getVersion h in
      case get_property latestData ''version'' of
        Inl e \<Rightarrow> Inl e
      | Inr latestVersion \<Rightarrow>
     (case semver_gt latestVersion (Some (JStr currentVersion)) of
        Inl e \<Rightarrow> Inl e
      | Inr newer \<Rightarrow>
          if newer then
            (case get_property latestData ''latest'' of
               Inl e \<Rightarrow> Inl e
             | Inr downloadLink \<Rightarrow>
                 Inr (ShowMessageBox (UpdateQuestion latestVersion) #
                      (if showMessageBox h (UpdateQuestion latestVersion) = 0
                       then downloadAndInstallUpdate h downloadLink
                       else [])))
          else Inr []))))"

text \<open>\<^verbatim>\<open>checkForUpdates\<close>: the \<^verbatim>\<open>catch\<close> clause logs the error and nothing else.\<close>

definition checkForUpdates :: "host \<Rightarrow> effect list" where
  "checkForUpdates h =
     Fetch manifest_url #
     (case try_block h of
        Inl e \<Rightarrow> [ConsoleError ''Error checking for updates:'' e]
      | Inr effects \<Rightarrow> effects)"

section \<open>The permission handler\<close>

text \<open>
  \<^verbatim>\<open>setupPermissions\<close> registers a handler that answers a permission request through
  its callback, exactly once on each path. The model returns the list of the calls made
  to the callback, each with its argument.
\<close>

definition permissionRequestHandler :: "string \<Rightarrow> bool list" where
  "permissionRequestHandler permission =
     (if permission = ''notifications'' then [True] else [False])"

section \<open>The window-open handler\<close>

text \<open>
  \<^verbatim>\<open>main.js\<close> is an ES module: it begins with static \<^verbatim>\<open>import\<close> declarations and reads
  \<^verbatim>\<open>import.meta.url\<close> to rebuild \<^verbatim>\<open>__filename\<close> and \<^verbatim>\<open>__dirname\<close>, which a CommonJS
  script gets from its wrapper together with \<^verbatim>\<open>require\<close>. A free identifier of the
  module is looked up among the names that the module binds at its top level, listed
  here, and then among the globals of the host.
\<close>

definition module_scope :: "string list" where
  "module_scope =
     [''app'', ''BrowserWindow'', ''Tray'', ''Menu'', ''ipcMain'', ''dialog'',
      ''Notification'', ''semver'', ''download'', ''fs'', ''exec'', ''fileURLToPath'',
      ''path'', ''__filename'', ''__dirname'', ''BaleApp'']"

text \<open>The argument of the handler, of which it reads \<^verbatim>\<open>url\<close> only.\<close>

record details =
  url :: string

text \<open>
  \<^verbatim>\<open>handleExternalLinks\<close>: the effects, and the error thrown or the \<^verbatim>\<open>action\<close> of the
  object returned. The first thing the body evaluates is the identifier \<^verbatim>\<open>require\<close>;
  an identifier that nothing binds throws a \<^verbatim>\<open>ReferenceError\<close>.
\<close>

definition handleExternalLinks :: "string list \<Rightarrow> details \<Rightarrow> effect list \<times> (error + string)" where
  "handleExternalLinks globals details =
     (if ''require'' \<in> set module_scope \<or> ''require'' \<in> set globals
      then ([OpenExternal (url details)], Inr ''deny'')
      else ([], Inl (ReferenceError ''require is not defined'')))"

text \<open>
  Globals of the main process of Electron that the module uses or could use. The
  function \<^verbatim>\<open>require\<close> is not a global there: Node.js passes it to CommonJS modules as
  an argument of their wrapper function, and an ES module has no such wrapper.
\<close>

definition main_process_globals :: "string list" where
  "main_process_globals =
     [''globalThis'', ''console'', ''fetch'', ''process'', ''Buffer'', ''URL'',
      ''setTimeout'', ''setInterval'', ''setImmediate'', ''queueMicrotask'']"

section \<open>Reading a trace of effects\<close>

fun is_question :: "effect \<Rightarrow> bool" where
  "is_question (ShowMessageBox (UpdateQuestion v)) = True"
| "is_question _ = False"

fun is_download :: "effect \<Rightarrow> bool" where
  "is_download (Download link) = True"
| "is_download _ = False"

fun is_exit :: "effect \<Rightarrow> bool" where
  "is_exit (AppExit code) = True"
| "is_exit _ = False"

text \<open>The command lines handed to \<^verbatim>\<open>exec\<close>, in order.\<close>

fun launches :: "effect list \<Rightarrow> string list" where
  "launches [] = []"
| "launches (Exec command # xs) = command # launches xs"
| "launches (x # xs) = launches xs"

text \<open>
  The file that the command line \<^verbatim>\<open>start "" "<file>"\<close> starts: what stands between the
  ten characters \<^verbatim>\<open>start "" "\<close> and the closing quote.
\<close>

definition launch_target :: "string \<Rightarrow> string" where
  "launch_target command = butlast (drop 10 command)"

section \<open>Semantic Versioning 2.0.0\<close>

text \<open>
  The order that the specification calls the standard one, written from the Semantic
  Versioning document and not from the library: a version is three natural numbers, a
  list of pre-release identifiers, each a natural number or an alphanumeric word, and a
  list of build identifiers. Nothing in this section uses the parser or the comparison
  functions of the sections above.
\<close>

datatype sv_ident = NumericId nat | AlphanumId string

record version =
  vmajor :: nat
  vminor :: nat
  vpatch :: nat
  vpre :: "sv_ident list"
  vbuild :: "string list"

text \<open>The characters of identifiers: ASCII digits, letters and the hyphen.\<close>

definition sv_digit :: "char \<Rightarrow> bool" where
  "sv_digit c = (CHR ''0'' \<le> c \<and> c \<le> CHR ''9'')"

definition sv_letter :: "char \<Rightarrow> bool" where
  "sv_letter c = ((CHR ''A'' \<le> c \<and> c \<le> CHR ''Z'') \<or> (CHR ''a'' \<le> c \<and> c \<le> CHR ''z''))"

definition sv_char :: "char \<Rightarrow> bool" where
  "sv_char c = (sv_digit c \<or> sv_letter c \<or> c = CHR ''-'')"

text \<open>
  An alphanumeric identifier is a non-empty word over these characters that is not a
  number; a build identifier is any non-empty word over them.
\<close>

definition valid_alphanum :: "string \<Rightarrow> bool" where
  "valid_alphanum s = (s \<noteq> [] \<and> list_all sv_char s \<and> list_ex (\<lambda>c. \<not> sv_digit c) s)"

fun valid_ident :: "sv_ident \<Rightarrow> bool" where
  "valid_ident (NumericId n) = True"
| "valid_ident (AlphanumId s) = valid_alphanum s"

definition valid_build_ident :: "string \<Rightarrow> bool" where
  "valid_build_ident s = (s \<noteq> [] \<and> list_all sv_char s)"

definition valid_version :: "version \<Rightarrow> bool" where
  "valid_version V = (list_all valid_ident (vpre V) \<and> list_all valid_build_ident (vbuild V))"

text \<open>The decimal numeral of a natural number, without leading zeros.\<close>

definition digit_char :: "nat \<Rightarrow> char" where
  "digit_char d = ''0123456789'' ! d"

function digits :: "nat \<Rightarrow> string" where
  "digits n = (if n < 10 then [digit_char n] else digits (n div 10) @ [digit_char (n mod 10)])"
  by pat_completeness auto
termination
  by (relation "measure id") auto

text \<open>The text of a version: \<^verbatim>\<open>MAJOR.MINOR.PATCH\<close>, then \<^verbatim>\<open>-\<close> and the pre-release
  identifiers, then \<^verbatim>\<open>+\<close> and the build identifiers, the identifiers separated by dots.\<close>

fun join_dots :: "string list \<Rightarrow> string" where
  "join_dots [] = []"
| "join_dots [x] = x"
| "join_dots (x # y # ys) = x @ CHR ''.'' # join_dots (y # ys)"

fun show_ident :: "sv_ident \<Rightarrow> string" where
  "show_ident (NumericId n) = digits n"
| "show_ident (AlphanumId s) = s"

definition render :: "version \<Rightarrow> string" where
  "render V =
     join_dots [digits (vmajor V), digits (vminor V), digits (vpatch V)] @
     (if vpre V = [] then [] else CHR ''-'' # join_dots (map show_ident (vpre V))) @
     (if vbuild V = [] then [] else CHR ''+'' # join_dots (vbuild V))"

text \<open>
  Precedence: major, minor and patch compare numerically, the first difference deciding;
  with these equal, a version with a pre-release precedes the one without; two
  pre-releases compare identifier by identifier, numeric identifiers numerically and
  below alphanumeric ones, alphanumeric ones in ASCII order, and a proper prefix
  precedes the longer list. Build metadata plays no role.
\<close>

fun sv_ident_less :: "sv_ident \<Rightarrow> sv_ident \<Rightarrow> bool" where
  "sv_ident_less (NumericId a) (NumericId b) = (a < b)"
| "sv_ident_less (NumericId a) (AlphanumId b) = True"
| "sv_ident_less (AlphanumId a) (NumericId b) = False"
| "sv_ident_less (AlphanumId a) (AlphanumId b) = (a < b)"

fun sv_idents_less :: "sv_ident list \<Rightarrow> sv_ident list \<Rightarrow> bool" where
  "sv_idents_less [] [] = False"
| "sv_idents_less [] (b # bs) = True"
| "sv_idents_less (a # as) [] = False"
| "sv_idents_less (a # as) (b # bs) = (sv_ident_less a b \<or> (a = b \<and> sv_idents_less as bs))"

definition precedes :: "version \<Rightarrow> version \<Rightarrow> bool" where
  "precedes a b =
     (vmajor a < vmajor b \<or>
      (vmajor a = vmajor b \<and>
       (vminor a < vminor b \<or>
        (vminor a = vminor b \<and>
         (vpatch a < vpatch b \<or>
          (vpatch a = vpatch b \<and>
           (if vpre a = [] then False
            else if vpre b = [] then True
            else sv_idents_less (vpre a) (vpre b))))))))"

text \<open>
  The versions that the library can take in and compares exactly: a text of at most 256
  characters, major, minor and patch of at most \<open>2\<^sup>5\<^sup>3 - 1\<close>, and numeric pre-release
  identifiers below \<open>2\<^sup>5\<^sup>3 - 1\<close>.
\<close>

fun safe_ident :: "sv_ident \<Rightarrow> bool" where
  "safe_ident (NumericId n) = (n < 9007199254740991)"
| "safe_ident (AlphanumId s) = True"

definition within_limits :: "version \<Rightarrow> bool" where
  "within_limits V =
     (length (render V) \<le> 256 \<and>
      vmajor V \<le> 9007199254740991 \<and> vminor V \<le> 9007199254740991 \<and>
      vpatch V \<le> 9007199254740991 \<and> list_all safe_ident (vpre V))"

section \<open>The parsed form of a version\<close>

text \<open>
  What the constructor \<^verbatim>\<open>SemVer\<close> is to make of the text of a version, and the three
  parts of that text. They serve to state and prove that the library reads a version
  within its limits as the version it is.
\<close>

fun ident_of :: "sv_ident \<Rightarrow> ident" where
  "ident_of (NumericId n) = IdNumber (int n)"
| "ident_of (AlphanumId s) = IdString s"

definition semver_of :: "version \<Rightarrow> semver" where
  "semver_of V =
     \<lparr>major = int (vmajor V), minor = int (vminor V), patch = int (vpatch V),
      prerelease = map ident_of (vpre V), build = vbuild V\<rparr>"

text \<open>The three parts of the text of a version.\<close>

definition core_text :: "version \<Rightarrow> string" where
  "core_text V = join_dots [digits (vmajor V), digits (vminor V), digits (vpatch V)]"

definition pre_text :: "version \<Rightarrow> string" where
  "pre_text V = (if vpre V = [] then [] else CHR ''-'' # join_dots (map show_ident (vpre V)))"

definition build_text :: "version \<Rightarrow> string" where
  "build_text V = (if vbuild V = [] then [] else CHR ''+'' # join_dots (vbuild V))"

section \<open>Example hosts\<close>

text \<open>
  The example of the specification, with the download link in the field that the program
  reads: the build 1.2.0 is running, the manifest announces 1.3.0, the user accepts, the
  download and the launch succeed.
\<close>

definition example_manifest :: json where
  "example_manifest =
     JObj [(''version'', JStr ''1.3.0''), (''latest'', JStr ''https://example/app-1.3.0.exe'')]"

definition example_host :: host where
  "example_host =
     \<lparr>fetch = (\<lambda>u. Inr (Inr example_manifest)),
      getVersion = ''1.2.0'',
      showMessageBox = (\<lambda>box. 0),
      download = (\<lambda>link. Inr ''C:/Users/me/Downloads/app-1.3.0.exe''),
      exec = (\<lambda>command. Inr [])\<rparr>"

text \<open>The manifest of the specification's example as the specification writes it.\<close>

definition spec_manifest :: json where
  "spec_manifest =
     JObj [(''version'', JStr ''1.3.0''),
           (''latestDownloadUrl'', JStr ''https://example/app-1.3.0.exe'')]"

definition spec_host :: host where
  "spec_host = example_host\<lparr>fetch := (\<lambda>u. Inr (Inr spec_manifest))\<rparr>"

text \<open>Hosts on which something else happens.\<close>

definition offline_host :: host where
  "offline_host = example_host\<lparr>fetch := (\<lambda>u. Inl (TypeError ''fetch failed''))\<rparr>"

definition up_to_date_host :: host where
  "up_to_date_host = example_host\<lparr>getVersion := ''1.3.0''\<rparr>"

definition declining_host :: host where
  "declining_host = example_host\<lparr>showMessageBox := (\<lambda>box. 1)\<rparr>"

definition failing_download_host :: host where
  "failing_download_host = example_host\<lparr>download := (\<lambda>link. Inl (Rejected ''interrupted''))\<rparr>"

definition failing_launch_host :: host where
  "failing_launch_host = example_host\<lparr>exec := (\<lambda>command. Inl (Rejected ''Command failed''))\<rparr>"

definition bad_version_host :: host where
  "bad_version_host =
     example_host\<lparr>fetch := (\<lambda>u. Inr (Inr (JObj [(''version'', JStr ''1.3''),
        (''latest'', JStr ''https://example/app-1.3.0.exe'')])))\<rparr>"

text \<open>
  Versions of the examples, and two versions whose pre-release numbers lie above
  \<open>2\<^sup>5\<^sup>3\<close> and differ by one.
\<close>

definition version_1_3_0 :: version where
  "version_1_3_0 = \<lparr>vmajor = 1, vminor = 3, vpatch = 0, vpre = [], vbuild = []\<rparr>"

definition version_1_2_0 :: version where
  "version_1_2_0 = \<lparr>vmajor = 1, vminor = 2, vpatch = 0, vpre = [], vbuild = []\<rparr>"

definition version_1_3_0_rc_1 :: version where
  "version_1_3_0_rc_1 =
     \<lparr>vmajor = 1, vminor = 3, vpatch = 0, vpre = [AlphanumId ''rc'', NumericId 1], vbuild = []\<rparr>"

definition release_candidate_host :: host where
  "release_candidate_host = example_host\<lparr>getVersion := ''1.3.0-rc.1''\<rparr>"

definition large_manifest_version :: version where
  "large_manifest_version =
     \<lparr>vmajor = 1, vminor = 0, vpatch = 0, vpre = [NumericId 9007199254740993], vbuild = []\<rparr>"

definition large_running_version :: version where
  "large_running_version =
     \<lparr>vmajor = 1, vminor = 0, vpatch = 0, vpre = [NumericId 9007199254740992], vbuild = []\<rparr>"

definition large_prerelease_host :: host where
  "large_prerelease_host =
     example_host\<lparr>fetch := (\<lambda>u. Inr (Inr (JObj [(''version'', JStr ''1.0.0-9007199254740993''),
        (''latest'', JStr ''https://example/app.exe'')]))),
       getVersion := ''1.0.0-9007199254740992''\<rparr>"

declare digits.simps [simp del]

section \<open>Facts about the model\<close>

subsection \<open>Characters\<close>

lemma char_in_range:
  fixes c :: char
  assumes "a \<le> (of_char c :: nat)" "(of_char c :: nat) < b"
  shows "c \<in> set (map char_of [a..<b])"
proof -
  have "c = char_of (of_char c :: nat)" by simp
  moreover have "(of_char c :: nat) \<in> set [a..<b]" using assms by simp
  ultimately show ?thesis unfolding set_map by blast
qed

lemma digits_list: "map char_of [48..<58::nat] = ''0123456789''"
  by code_simp

lemma upper_list: "map char_of [65..<91::nat] = ''ABCDEFGHIJKLMNOPQRSTUVWXYZ''"
  by code_simp

lemma lower_list: "map char_of [97..<123::nat] = ''abcdefghijklmnopqrstuvwxyz''"
  by code_simp

lemma is_digit_iff: "is_digit c \<longleftrightarrow> sv_digit c"
proof
  assume "is_digit c"
  then show "sv_digit c"
    by (auto simp: is_digit_def sv_digit_def less_eq_char_def)
next
  assume "sv_digit c"
  then have "c \<in> set (map char_of [48..<58::nat])"
    by (intro char_in_range) (simp_all add: sv_digit_def less_eq_char_def)
  then show "is_digit c"
    by (simp only: digits_list is_digit_def)
qed

lemma is_letter_dash_number_iff: "is_letter_dash_number c \<longleftrightarrow> sv_char c"
proof
  assume "is_letter_dash_number c"
  then show "sv_char c"
    unfolding is_letter_dash_number_def sv_char_def sv_digit_def sv_letter_def less_eq_char_def
    by (elim disjE | simp)+
next
  assume "sv_char c"
  then consider "sv_digit c" | "CHR ''A'' \<le> c \<and> c \<le> CHR ''Z''"
    | "CHR ''a'' \<le> c \<and> c \<le> CHR ''z''" | "c = CHR ''-''"
    by (auto simp: sv_char_def sv_letter_def)
  then show "is_letter_dash_number c"
  proof cases
    case 1
    then have "is_digit c" by (simp add: is_digit_iff)
    then show ?thesis by (auto simp: is_digit_def is_letter_dash_number_def)
  next
    case 2
    then have "c \<in> set (map char_of [65..<91::nat])"
      by (intro char_in_range) (simp_all add: less_eq_char_def)
    then have "c \<in> set ''ABCDEFGHIJKLMNOPQRSTUVWXYZ''" by (simp only: upper_list)
    then show ?thesis by (auto simp: is_letter_dash_number_def)
  next
    case 3
    then have "c \<in> set (map char_of [97..<123::nat])"
      by (intro char_in_range) (simp_all add: less_eq_char_def)
    then have "c \<in> set ''abcdefghijklmnopqrstuvwxyz''" by (simp only: lower_list)
    then show ?thesis by (auto simp: is_letter_dash_number_def)
  next
    case 4
    then show ?thesis by (simp add: is_letter_dash_number_def)
  qed
qed

subsection \<open>Decimal numerals and dotted lists\<close>

lemma digit_cases: "d < 10 \<Longrightarrow> d = 0 \<or> d = 1 \<or> d = 2 \<or> d = 3 \<or> d = 4 \<or> d = 5 \<or> d = 6 \<or> d = 7 \<or> d = 8 \<or> d = (9::nat)"
  by arith

lemma digit_char_is_digit: "d < 10 \<Longrightarrow> is_digit (digit_char d)"
  using digit_cases [of d] by (auto simp: is_digit_def digit_char_def)

lemma digit_char_value: "d < 10 \<Longrightarrow> (of_char (digit_char d) :: int) - 48 = int d"
  using digit_cases [of d] by (auto simp: digit_char_def)

lemma digit_char_zero: "d < 10 \<Longrightarrow> digit_char d = CHR ''0'' \<longleftrightarrow> d = 0"
  using digit_cases [of d] by (auto simp: digit_char_def)

lemma digits_not_empty: "digits n \<noteq> []"
  by (subst digits.simps) simp

lemma digits_all_digits: "list_all is_digit (digits n)"
proof (induction n rule: digits.induct)
  case (1 n)
  then show ?case
    by (subst digits.simps) (simp add: digit_char_is_digit)
qed

lemma to_number_snoc: "to_number (xs @ [c]) = 10 * to_number xs + (of_char c - 48)"
  by (simp add: to_number_def)

lemma to_number_digits: "to_number (digits n) = int n"
proof (induction n rule: digits.induct)
  case (1 n)
  show ?case
  proof (cases "n < 10")
    case True
    then show ?thesis
      by (subst digits.simps) (simp add: to_number_def digit_char_value)
  next
    case False
    with 1 have "to_number (digits (n div 10)) = int (n div 10)" by simp
    with False show ?thesis
      by (subst digits.simps) (simp add: to_number_snoc digit_char_value zdiv_int zmod_int)
  qed
qed

lemma hd_digits_nonzero: "0 < n \<Longrightarrow> hd (digits n) \<noteq> CHR ''0''"
proof (induction n rule: digits.induct)
  case (1 n)
  show ?case
  proof (cases "n < 10")
    case True
    with 1(2) show ?thesis
      by (subst digits.simps) (simp add: digit_char_zero)
  next
    case False
    then have "0 < n div 10" by simp
    with 1 False have "hd (digits (n div 10)) \<noteq> CHR ''0''" by simp
    with False show ?thesis
      by (subst digits.simps) (simp add: digits_not_empty)
  qed
qed

lemma digits_zero: "digits 0 = ''0''"
  by (subst digits.simps) (simp add: digit_char_def)

lemma numeric_identifier_digits: "numeric_identifier (digits n)"
proof (cases "n = 0")
  case True
  then show ?thesis by (simp add: numeric_identifier_def digits_zero)
next
  case False
  then show ?thesis
    by (simp add: numeric_identifier_def digits_not_empty digits_all_digits hd_digits_nonzero)
qed

lemma split_on_no_sep: "sep \<notin> set a \<Longrightarrow> split_on sep a = [a]"
  by (induction a) auto

lemma split_on_append: "sep \<notin> set a \<Longrightarrow> split_on sep (a @ sep # rest) = a # split_on sep rest"
  by (induction a) (auto split: list.splits)

lemma split_on_join_dots:
  "ps \<noteq> [] \<Longrightarrow> \<forall>p\<in>set ps. CHR ''.'' \<notin> set p \<Longrightarrow> split_on (CHR ''.'') (join_dots ps) = ps"
  by (induction ps rule: join_dots.induct) (simp_all add: split_on_no_sep split_on_append)

subsection \<open>The characters of the text of a version\<close>

lemma sv_char_not_white_space: "sv_char c \<Longrightarrow> \<not> is_white_space c"
  by (auto simp: sv_char_def sv_digit_def sv_letter_def is_white_space_def less_eq_char_def)

lemma dot_plus_not_white_space: "\<not> is_white_space (CHR ''.'')" "\<not> is_white_space (CHR ''+'')"
  by (simp_all add: is_white_space_def)

lemma plus_not_sv_char: "\<not> sv_char (CHR ''+'')"
  by (simp add: sv_char_def sv_digit_def sv_letter_def less_eq_char_def)

lemma dot_not_sv_char: "\<not> sv_char (CHR ''.'')"
  by (simp add: sv_char_def sv_digit_def sv_letter_def less_eq_char_def)

lemma sv_digit_sv_char: "sv_digit c \<Longrightarrow> sv_char c"
  by (simp add: sv_char_def)

lemma hyphen_v_not_digit: "\<not> sv_digit (CHR ''-'')" "\<not> sv_digit (CHR ''v'')" "\<not> sv_digit (CHR ''.'')"
  by (simp_all add: sv_digit_def less_eq_char_def)

lemma digits_sv_digit: "c \<in> set (digits n) \<Longrightarrow> sv_digit c"
  using digits_all_digits [of n] by (simp add: list_all_iff is_digit_iff)

lemma set_join_dots: "set (join_dots ps) \<subseteq> \<Union> (set ` set ps) \<union> {CHR ''.''}"
  by (induction ps rule: join_dots.induct) auto

lemma show_ident_chars: "valid_ident i \<Longrightarrow> c \<in> set (show_ident i) \<Longrightarrow> sv_char c"
  by (cases i) (auto simp: valid_alphanum_def list_all_iff dest: digits_sv_digit sv_digit_sv_char)

lemma render_parts: "render V = core_text V @ pre_text V @ build_text V"
  by (simp add: render_def core_text_def pre_text_def build_text_def)

lemma core_text_chars: "c \<in> set (core_text V) \<Longrightarrow> sv_digit c \<or> c = CHR ''.''"
  by (auto simp: core_text_def dest: digits_sv_digit)

lemma pre_ids_chars:
  assumes "list_all valid_ident ps" "c \<in> set (join_dots (map show_ident ps))"
  shows "sv_char c \<or> c = CHR ''.''"
proof -
  from assms(2) set_join_dots [of "map show_ident ps"]
  have "c \<in> \<Union> (set ` set (map show_ident ps)) \<or> c = CHR ''.''" by auto
  with assms(1) show ?thesis
    by (auto simp: list_all_iff dest: show_ident_chars)
qed

lemma build_ids_chars:
  assumes "list_all valid_build_ident bs" "c \<in> set (join_dots bs)"
  shows "sv_char c \<or> c = CHR ''.''"
proof -
  from assms(2) set_join_dots [of bs]
  have "c \<in> \<Union> (set ` set bs) \<or> c = CHR ''.''" by auto
  with assms(1) show ?thesis
    by (auto simp: list_all_iff valid_build_ident_def)
qed

lemma pre_text_chars:
  "valid_version V \<Longrightarrow> c \<in> set (pre_text V) \<Longrightarrow> sv_char c \<or> c = CHR ''.''"
  by (auto simp: pre_text_def valid_version_def sv_char_def dest: pre_ids_chars split: if_splits)

lemma build_text_chars:
  "valid_version V \<Longrightarrow> c \<in> set (build_text V) \<Longrightarrow> sv_char c \<or> c = CHR ''.'' \<or> c = CHR ''+''"
  by (auto simp: build_text_def valid_version_def dest: build_ids_chars split: if_splits)

lemma render_no_white_space:
  assumes "valid_version V" "c \<in> set (render V)"
  shows "\<not> is_white_space c"
proof -
  from assms have "sv_char c \<or> c = CHR ''.'' \<or> c = CHR ''+''"
    by (auto simp: render_parts dest: core_text_chars pre_text_chars build_text_chars sv_digit_sv_char)
  then show ?thesis
    by (auto simp: dot_plus_not_white_space dest: sv_char_not_white_space)
qed

lemma dropWhile_none: "\<forall>c\<in>set s. \<not> P c \<Longrightarrow> dropWhile P s = s"
  by (cases s) simp_all

lemma trim_render: "valid_version V \<Longrightarrow> trim (render V) = render V"
  by (simp add: trim_def dropWhile_none render_no_white_space)

lemma core_text_split:
  "split_on (CHR ''.'') (core_text V) = [digits (vmajor V), digits (vminor V), digits (vpatch V)]"
  unfolding core_text_def
  by (rule split_on_join_dots) (auto dest: digits_sv_digit simp: hyphen_v_not_digit)


subsection \<open>The library reads the text of a version\<close>

lemma no_plus_before_build:
  "valid_version V \<Longrightarrow> \<forall>c\<in>set (core_text V @ pre_text V). c \<noteq> CHR ''+''"
  using plus_not_sv_char
  by (auto dest: core_text_chars pre_text_chars sv_digit_sv_char)

lemma no_hyphen_in_core: "\<forall>c\<in>set (core_text V). c \<noteq> CHR ''-''"
  by (auto dest: core_text_chars simp: hyphen_v_not_digit)

lemma takeWhile_plus_render:
  assumes "valid_version V"
  shows "takeWhile (\<lambda>x. x \<noteq> CHR ''+'') (render V) = core_text V @ pre_text V"
proof -
  have "takeWhile (\<lambda>x. x \<noteq> CHR ''+'') ((core_text V @ pre_text V) @ build_text V) =
      (core_text V @ pre_text V) @ takeWhile (\<lambda>x. x \<noteq> CHR ''+'') (build_text V)"
    using no_plus_before_build [OF assms] by (intro takeWhile_append2) auto
  then show ?thesis by (simp add: render_parts build_text_def)
qed

lemma dropWhile_plus_render:
  assumes "valid_version V"
  shows "dropWhile (\<lambda>x. x \<noteq> CHR ''+'') (render V) = build_text V"
proof -
  have "dropWhile (\<lambda>x. x \<noteq> CHR ''+'') ((core_text V @ pre_text V) @ build_text V) =
      dropWhile (\<lambda>x. x \<noteq> CHR ''+'') (build_text V)"
    using no_plus_before_build [OF assms] by (intro dropWhile_append2) auto
  then show ?thesis by (simp add: render_parts build_text_def)
qed

lemma takeWhile_hyphen_main:
  "takeWhile (\<lambda>x. x \<noteq> CHR ''-'') (core_text V @ pre_text V) = core_text V"
proof -
  have "takeWhile (\<lambda>x. x \<noteq> CHR ''-'') (core_text V @ pre_text V) =
      core_text V @ takeWhile (\<lambda>x. x \<noteq> CHR ''-'') (pre_text V)"
    using no_hyphen_in_core [of V] by (intro takeWhile_append2) auto
  then show ?thesis by (simp add: pre_text_def)
qed

lemma dropWhile_hyphen_main:
  "dropWhile (\<lambda>x. x \<noteq> CHR ''-'') (core_text V @ pre_text V) = pre_text V"
proof -
  have "dropWhile (\<lambda>x. x \<noteq> CHR ''-'') (core_text V @ pre_text V) =
      dropWhile (\<lambda>x. x \<noteq> CHR ''-'') (pre_text V)"
    using no_hyphen_in_core [of V] by (intro dropWhile_append2) auto
  then show ?thesis by (simp add: pre_text_def)
qed

lemma pre_ids_split:
  assumes "list_all valid_ident ps" "ps \<noteq> []"
  shows "split_on (CHR ''.'') (join_dots (map show_ident ps)) = map show_ident ps"
proof (rule split_on_join_dots)
  show "map show_ident ps \<noteq> []" using assms(2) by simp
  show "\<forall>p\<in>set (map show_ident ps). CHR ''.'' \<notin> set p"
    using assms(1) dot_not_sv_char by (auto simp: list_all_iff dest: show_ident_chars)
qed

lemma build_ids_split:
  assumes "list_all valid_build_ident bs" "bs \<noteq> []"
  shows "split_on (CHR ''.'') (join_dots bs) = bs"
proof (rule split_on_join_dots)
  show "bs \<noteq> []" by fact
  show "\<forall>p\<in>set bs. CHR ''.'' \<notin> set p"
    using assms(1) dot_not_sv_char by (auto simp: list_all_iff valid_build_ident_def)
qed

lemma prerelease_identifier_show: "valid_ident i \<Longrightarrow> prerelease_identifier (show_ident i)"
  by (cases i)
     (auto simp: prerelease_identifier_def numeric_identifier_digits valid_alphanum_def
        list_all_iff list_ex_iff is_digit_iff is_letter_dash_number_iff)

lemma build_identifier_valid: "valid_build_ident s \<Longrightarrow> build_identifier s"
  by (auto simp: build_identifier_def valid_build_ident_def list_all_iff is_letter_dash_number_iff)

lemma to_identifier_show:
  assumes "valid_ident i" "safe_ident i"
  shows "to_identifier (show_ident i) = ident_of i"
proof (cases i)
  case (NumericId n)
  with assms(2) show ?thesis
    by (simp add: to_identifier_def to_number_digits digits_all_digits digits_not_empty
          MAX_SAFE_INTEGER_def)
next
  case (AlphanumId s)
  with assms(1) have "\<not> list_all is_digit s"
    by (auto simp: valid_alphanum_def list_all_iff list_ex_iff is_digit_iff)
  with AlphanumId show ?thesis
    by (simp add: to_identifier_def)
qed

lemma match_full_render:
  assumes "valid_version V"
  shows "match_full (render V) =
           Some ([digits (vmajor V), digits (vminor V), digits (vpatch V)],
                 map show_ident (vpre V), vbuild V)"
proof -
  obtain d ds where major: "digits (vmajor V) = d # ds"
    using digits_not_empty [of "vmajor V"] by (auto simp: neq_Nil_conv)
  then have "sv_digit d"
    using digits_sv_digit [of d "vmajor V"] by simp
  then have not_v: "d \<noteq> CHR ''v''"
    using hyphen_v_not_digit by auto
  obtain r where first: "render V = d # r"
    using major by (simp add: render_def)
  have s0: "(case render V of c # r \<Rightarrow> if c = CHR ''v'' then r else render V | [] \<Rightarrow> render V) = render V"
    using not_v by (simp add: first)
  have pre: "(case after_first (CHR ''-'') (core_text V @ pre_text V) of
                None \<Rightarrow> [] | Some p \<Rightarrow> split_on (CHR ''.'') p) = map show_ident (vpre V)"
    unfolding after_first_def dropWhile_hyphen_main
    using assms by (simp add: pre_text_def pre_ids_split valid_version_def)
  have bld: "(case after_first (CHR ''+'') (render V) of
                None \<Rightarrow> [] | Some b \<Rightarrow> split_on (CHR ''.'') b) = vbuild V"
    unfolding after_first_def dropWhile_plus_render [OF assms]
    using assms by (simp add: build_text_def build_ids_split valid_version_def)
  have ok_pre: "list_all prerelease_identifier (map show_ident (vpre V))"
    using assms by (auto simp: valid_version_def list_all_iff prerelease_identifier_show)
  have ok_bld: "list_all build_identifier (vbuild V)"
    using assms by (auto simp: valid_version_def list_all_iff build_identifier_valid)
  show ?thesis
    unfolding match_full_def s0 Let_def
    by (simp add: takeWhile_plus_render [OF assms] takeWhile_hyphen_main core_text_split pre bld
          ok_pre ok_bld numeric_identifier_digits)
qed

lemma SemVer_render:
  assumes "valid_version V" "within_limits V"
  shows "SemVer (Some (JStr (render V))) = Inr (semver_of V)"
proof -
  from assms have "\<forall>i\<in>set (vpre V). valid_ident i \<and> safe_ident i"
    by (simp add: valid_version_def within_limits_def list_all_iff)
  then have ids: "\<forall>i\<in>set (vpre V). to_identifier (show_ident i) = ident_of i"
    by (simp add: to_identifier_show)
  show ?thesis
    using assms(2)
    by (simp add: SemVer_def MAX_LENGTH_def MAX_SAFE_INTEGER_def trim_render [OF assms(1)]
          match_full_render [OF assms(1)] to_number_digits within_limits_def semver_of_def ids)
qed

subsection \<open>The library compares as Semantic Versioning does\<close>

lemma string_less_iff: "string_less a b \<longleftrightarrow> a < b"
  by (induction a b rule: string_less.induct) (auto simp: less_char_def)

lemma valid_alphanum_not_numeric: "valid_alphanum s \<Longrightarrow> \<not> list_all is_digit s"
  by (auto simp: valid_alphanum_def list_all_iff list_ex_iff is_digit_iff)

lemma ident_of_eq_iff: "ident_of a = ident_of b \<longleftrightarrow> a = b"
  by (cases a; cases b) simp_all

lemma sv_ident_less_irrefl: "\<not> sv_ident_less a a"
  by (cases a) simp_all

lemma alphanum_not_numeric: "valid_alphanum s \<Longrightarrow> numeric (IdString s) = False"
  by (simp add: valid_alphanum_not_numeric)

lemma compareIdentifiers_of:
  assumes "valid_ident a" "valid_ident b"
  shows "0 < compareIdentifiers (ident_of a) (ident_of b) \<longleftrightarrow> sv_ident_less b a"
proof (cases a)
  case a: (NumericId m)
  show ?thesis
  proof (cases b)
    case (NumericId n)
    with a show ?thesis by (simp add: compareIdentifiers_def)
  next
    case (AlphanumId t)
    with a assms(2) show ?thesis
      by (simp add: compareIdentifiers_def alphanum_not_numeric del: numeric.simps(2))
  qed
next
  case a: (AlphanumId s)
  show ?thesis
  proof (cases b)
    case (NumericId n)
    with a assms(1) show ?thesis
      by (simp add: compareIdentifiers_def alphanum_not_numeric del: numeric.simps(2))
  next
    case (AlphanumId t)
    with a assms show ?thesis
      by (auto simp add: compareIdentifiers_def alphanum_not_numeric string_less_iff
          simp del: numeric.simps(2))
  qed
qed

lemma compare_identifier_lists_of:
  assumes "list_all valid_ident as" "list_all valid_ident bs"
  shows "0 < compare_identifier_lists (map ident_of as) (map ident_of bs) \<longleftrightarrow>
           sv_idents_less bs as"
  using assms
proof (induction as arbitrary: bs)
  case Nil
  then show ?case by (cases bs) simp_all
next
  case (Cons a as)
  show ?case
  proof (cases bs)
    case Nil
    then show ?thesis by simp
  next
    case (Cons b bs')
    with Cons.prems Cons.IH [of bs'] show ?thesis
      by (auto simp: ident_of_eq_iff compareIdentifiers_of sv_ident_less_irrefl)
  qed
qed

lemma compareMain_of:
  "compareMain (semver_of a) (semver_of b) =
     (if vmajor a \<noteq> vmajor b then (if vmajor a < vmajor b then - 1 else 1)
      else if vminor a \<noteq> vminor b then (if vminor a < vminor b then - 1 else 1)
      else if vpatch a \<noteq> vpatch b then (if vpatch a < vpatch b then - 1 else 1)
      else 0)"
  by (simp add: compareMain_def or_else_def compareIdentifiers_def semver_of_def)

lemma comparePre_of:
  assumes "valid_version a" "valid_version b"
  shows "0 < comparePre (semver_of a) (semver_of b) \<longleftrightarrow>
     (if vpre b = [] then False
      else if vpre a = [] then True
      else sv_idents_less (vpre b) (vpre a))"
  using assms
  by (simp add: comparePre_def semver_of_def compare_identifier_lists_of valid_version_def)

text \<open>
  On versions within its limits the comparison of the library is the precedence of
  Semantic Versioning.
\<close>

lemma compare_of:
  assumes "valid_version a" "valid_version b"
  shows "0 < compare (semver_of a) (semver_of b) \<longleftrightarrow> precedes b a"
  unfolding compare_def or_else_def compareMain_of precedes_def
  using comparePre_of [OF assms] by auto

lemma semver_gt_render:
  assumes "valid_version M" "within_limits M" "valid_version C" "within_limits C"
  shows "semver_gt (Some (JStr (render M))) (Some (JStr (render C))) = Inr (precedes C M)"
  using assms by (simp add: semver_gt_def SemVer_render compare_of)

subsection \<open>The update cycle\<close>

text \<open>The download-and-install step asks no question.\<close>

lemma no_question_in_install: "filter is_question (downloadAndInstallUpdate h link) = []"
  by (simp add: downloadAndInstallUpdate_def split: sum.splits)

lemma question_not_in_install:
  "ShowMessageBox (UpdateQuestion v) \<notin> set (downloadAndInstallUpdate h link)"
  by (simp add: downloadAndInstallUpdate_def split: sum.splits)

text \<open>The cycle in which the manifest announces a newer version.\<close>

lemma cycle_newer:
  assumes "fetch h manifest_url = Inr (Inr latestData)"
    and "get_property latestData ''version'' = Inr v"
    and "semver_gt v (Some (JStr (getVersion h))) = Inr True"
    and "get_property latestData ''latest'' = Inr link"
  shows "checkForUpdates h =
           Fetch manifest_url # ShowMessageBox (UpdateQuestion v) #
           (if showMessageBox h (UpdateQuestion v) = 0
            then downloadAndInstallUpdate h link else [])"
  using assms by (simp add: checkForUpdates_def try_block_def)

text \<open>A value with a \<^verbatim>\<open>version\<close> property can be asked for its \<^verbatim>\<open>latest\<close> property.\<close>

lemma latest_readable:
  "get_property latestData ''version'' = Inr v \<Longrightarrow>
     \<exists>link. get_property latestData ''latest'' = Inr link"
  by (cases latestData) simp_all

text \<open>Versions that the examples use.\<close>

lemma SemVer_1_3: "SemVer (Some (JStr ''1.3'')) = Inl (TypeError ''Invalid Version'')"
  by code_simp

lemma semver_gt_1_3_0_1_2_0: "semver_gt (Some (JStr ''1.3.0'')) (Some (JStr ''1.2.0'')) = Inr True"
  by code_simp

lemma semver_gt_large_prerelease:
  "semver_gt (Some (JStr ''1.0.0-9007199254740993'')) (Some (JStr ''1.0.0-9007199254740992'')) =
     Inr False"
  by code_simp

text \<open>The texts of the versions of the examples.\<close>

lemmas render_defs = render_def digits.simps digit_char_def

lemma render_examples:
  "render version_1_3_0 = ''1.3.0''"
  "render version_1_2_0 = ''1.2.0''"
  "render version_1_3_0_rc_1 = ''1.3.0-rc.1''"
  "render large_manifest_version = ''1.0.0-9007199254740993''"
  "render large_running_version = ''1.0.0-9007199254740992''"
  by (simp_all add: render_defs version_1_3_0_def version_1_2_0_def version_1_3_0_rc_1_def
        large_manifest_version_def large_running_version_def)

lemma valid_examples:
  "valid_version version_1_3_0" "valid_version version_1_2_0"
  "valid_version version_1_3_0_rc_1"
  "valid_version large_manifest_version" "valid_version large_running_version"
  by (simp_all add: valid_version_def valid_alphanum_def sv_char_def sv_digit_def sv_letter_def
        less_eq_char_def version_1_3_0_def version_1_2_0_def version_1_3_0_rc_1_def
        large_manifest_version_def large_running_version_def)

lemma within_limits_examples:
  "within_limits version_1_3_0" "within_limits version_1_2_0"
  "within_limits version_1_3_0_rc_1"
  by (simp_all add: within_limits_def render_examples)
     (simp_all add: version_1_3_0_def version_1_2_0_def version_1_3_0_rc_1_def)

lemmas example_defs = example_host_def example_manifest_def

section \<open>Properties\<close>

text \<open>
  C9: the permission handler answers every request exactly once, and it grants the
  request if and only if the requested permission is \<^verbatim>\<open>notifications\<close>.
\<close>

theorem permission_granted_iff_notifications:
  "permissionRequestHandler permission = [permission = ''notifications'']"
  by (simp add: permissionRequestHandler_def)

text \<open>
  C3: when the request for the manifest fails, or the body of the response is not
  parseable, the cycle consists of the request and one logged error: no dialog, no
  download, no launch and no exit.
\<close>

theorem fetch_failure_is_logged_only:
  assumes "fetch h manifest_url = Inl e \<or> fetch h manifest_url = Inr (Inl e)"
  shows "checkForUpdates h =
           [Fetch manifest_url, ConsoleError ''Error checking for updates:'' e]"
  using assms by (auto simp add: checkForUpdates_def try_block_def)

theorem fetch_failure_is_logged_only_witness:
  "checkForUpdates offline_host =
     [Fetch manifest_url, ConsoleError ''Error checking for updates:'' (TypeError ''fetch failed'')]"
  using fetch_failure_is_logged_only [of offline_host "TypeError ''fetch failed''"]
  by (simp add: example_defs offline_host_def)

text \<open>
  C7: when the \<^verbatim>\<open>version\<close> of the fetched manifest is not a semantic version (also
  when it is missing or not a string), the cycle consists of the request and one logged
  error: no question is asked and no download is started.
\<close>

theorem invalid_version_fails_the_check:
  assumes "fetch h manifest_url = Inr (Inr latestData)"
    and "get_property latestData ''version'' = Inr v"
    and "SemVer v = Inl e"
  shows "checkForUpdates h =
           [Fetch manifest_url, ConsoleError ''Error checking for updates:'' e]"
  using assms by (simp add: checkForUpdates_def try_block_def semver_gt_def)

theorem invalid_version_fails_the_check_witness:
  "checkForUpdates bad_version_host =
     [Fetch manifest_url, ConsoleError ''Error checking for updates:'' (TypeError ''Invalid Version'')]"
  using invalid_version_fails_the_check [of bad_version_host _ "Some (JStr ''1.3'')" "TypeError ''Invalid Version''"]
  by (simp add: example_defs bad_version_host_def SemVer_1_3)

text \<open>
  C1, as the specification states it, fails: the manifest announces
  \<^verbatim>\<open>1.0.0-9007199254740993\<close> and the build \<^verbatim>\<open>1.0.0-9007199254740992\<close> is running. Both
  are semantic versions and the first is strictly greater, its numeric pre-release
  identifier being greater by one; the library compares the two identifiers as doubles,
  finds them equal, and the cycle consists of the request alone, without the question.
\<close>

theorem no_question_beyond_safe_integers:
  "valid_version large_manifest_version \<and> valid_version large_running_version
   \<and> render large_manifest_version = ''1.0.0-9007199254740993''
   \<and> render large_running_version = ''1.0.0-9007199254740992''
   \<and> precedes large_running_version large_manifest_version
   \<and> fetch large_prerelease_host manifest_url =
       Inr (Inr (JObj [(''version'', JStr ''1.0.0-9007199254740993''),
                       (''latest'', JStr ''https://example/app.exe'')]))
   \<and> getVersion large_prerelease_host = ''1.0.0-9007199254740992''
   \<and> filter is_question (checkForUpdates large_prerelease_host) = []
   \<and> checkForUpdates large_prerelease_host = [Fetch manifest_url]"
proof -
  have "precedes large_running_version large_manifest_version"
    by (simp add: precedes_def large_manifest_version_def large_running_version_def)
  moreover have "checkForUpdates large_prerelease_host = [Fetch manifest_url]"
    by (simp add: checkForUpdates_def try_block_def large_prerelease_host_def example_defs
          semver_gt_large_prerelease)
  ultimately show ?thesis
    by (simp add: valid_examples render_examples large_prerelease_host_def example_defs)
qed

text \<open>
  C1, amended: in a cycle in which the version of the fetched manifest and the running
  version are semantic versions within the limits of the library (a text of at most 256
  characters, major, minor and patch of at most \<open>2\<^sup>5\<^sup>3 - 1\<close>) and with numeric
  pre-release identifiers below \<open>2\<^sup>5\<^sup>3 - 1\<close>, the question is asked exactly once if the
  version of the manifest is strictly greater than the running version in the order of
  Semantic Versioning, and not at all otherwise; when it is not greater, the cycle
  consists of the request alone: no question, no download, no other effect.
\<close>

theorem question_iff_newer_semantic_version:
  assumes "fetch h manifest_url = Inr (Inr latestData)"
    and "get_property latestData ''version'' = Inr (Some (JStr (render M)))"
    and "getVersion h = render C"
    and "valid_version M" and "within_limits M"
    and "valid_version C" and "within_limits C"
  shows "length (filter is_question (checkForUpdates h)) = (if precedes C M then 1 else 0)
         \<and> (\<not> precedes C M \<longrightarrow> checkForUpdates h = [Fetch manifest_url])"
proof -
  have gt: "semver_gt (Some (JStr (render M))) (Some (JStr (getVersion h))) = Inr (precedes C M)"
    using assms(3-7) by (simp add: semver_gt_render)
  show ?thesis
  proof (cases "precedes C M")
    case True
    from latest_readable [OF assms(2)]
    obtain link where link: "get_property latestData ''latest'' = Inr link" ..
    from gt True
    have "semver_gt (Some (JStr (render M))) (Some (JStr (getVersion h))) = Inr True"
      by simp
    from cycle_newer [OF assms(1,2) this link] True show ?thesis
      by (simp add: no_question_in_install)
  next
    case False
    with gt assms(1,2) show ?thesis
      by (simp add: checkForUpdates_def try_block_def)
  qed
qed

theorem question_iff_newer_semantic_version_witness:
  "length (filter is_question (checkForUpdates example_host)) = 1
   \<and> length (filter is_question (checkForUpdates release_candidate_host)) = 1
   \<and> checkForUpdates up_to_date_host = [Fetch manifest_url]"
proof -
  have version: "get_property example_manifest ''version'' = Inr (Some (JStr (render version_1_3_0)))"
    by (simp add: example_manifest_def render_examples)
  have newer: "precedes version_1_2_0 version_1_3_0"
    by (simp add: precedes_def version_1_2_0_def version_1_3_0_def)
  have candidate: "precedes version_1_3_0_rc_1 version_1_3_0"
    by (simp add: precedes_def version_1_3_0_rc_1_def version_1_3_0_def)
  have same: "\<not> precedes version_1_3_0 version_1_3_0"
    by (simp add: precedes_def version_1_3_0_def)
  have "length (filter is_question (checkForUpdates example_host)) = 1"
    using question_iff_newer_semantic_version [of example_host example_manifest
        version_1_3_0 version_1_2_0] version newer
    by (simp add: example_host_def render_examples valid_examples within_limits_examples)
  moreover have "length (filter is_question (checkForUpdates release_candidate_host)) = 1"
    using question_iff_newer_semantic_version [of release_candidate_host example_manifest
        version_1_3_0 version_1_3_0_rc_1] version candidate
    by (simp add: release_candidate_host_def example_host_def render_examples valid_examples
          within_limits_examples)
  moreover have "checkForUpdates up_to_date_host = [Fetch manifest_url]"
    using question_iff_newer_semantic_version [of up_to_date_host example_manifest
        version_1_3_0 version_1_3_0] version same
    by (simp add: up_to_date_host_def example_host_def render_examples valid_examples
          within_limits_examples)
  ultimately show ?thesis by simp
qed

text \<open>
  C2, as the specification states it, fails: with the manifest of the specification's
  own example, whose link is in the field \<^verbatim>\<open>latestDownloadUrl\<close>, an accepted update
  starts the download with \<^verbatim>\<open>undefined\<close> and not with the value of that field.
\<close>

theorem latestDownloadUrl_is_not_read:
  "fetch spec_host manifest_url = Inr (Inr spec_manifest)
   \<and> getVersion spec_host = ''1.2.0''
   \<and> get_property spec_manifest ''version'' = Inr (Some (JStr ''1.3.0''))
   \<and> semver_gt (Some (JStr ''1.3.0'')) (Some (JStr ''1.2.0'')) = Inr True
   \<and> showMessageBox spec_host (UpdateQuestion (Some (JStr ''1.3.0''))) = 0
   \<and> get_property spec_manifest ''latestDownloadUrl'' =
       Inr (Some (JStr ''https://example/app-1.3.0.exe''))
   \<and> filter is_download (checkForUpdates spec_host) = [Download None]
   \<and> Download (Some (JStr ''https://example/app-1.3.0.exe'')) \<notin> set (checkForUpdates spec_host)"
  by (simp add: example_defs spec_host_def spec_manifest_def checkForUpdates_def try_block_def
        semver_gt_1_3_0_1_2_0 downloadAndInstallUpdate_def)

text \<open>
  C2, amended: when the version of the manifest is strictly greater, that is when
  \<^verbatim>\<open>semver.gt\<close> gives true, and the user accepts, the download-and-install step runs with
  the value of the manifest's field \<^verbatim>\<open>latest\<close>, and that value is what the one download
  of the cycle is started with.
\<close>

theorem accepted_update_downloads_latest:
  assumes "fetch h manifest_url = Inr (Inr latestData)"
    and "get_property latestData ''version'' = Inr v"
    and "semver_gt v (Some (JStr (getVersion h))) = Inr True"
    and "get_property latestData ''latest'' = Inr link"
    and "showMessageBox h (UpdateQuestion v) = 0"
  shows "checkForUpdates h =
           Fetch manifest_url # ShowMessageBox (UpdateQuestion v) #
           downloadAndInstallUpdate h link
         \<and> filter is_download (checkForUpdates h) = [Download link]"
proof -
  from assms have "checkForUpdates h =
      Fetch manifest_url # ShowMessageBox (UpdateQuestion v) # downloadAndInstallUpdate h link"
    by (simp add: cycle_newer)
  moreover have "filter is_download (downloadAndInstallUpdate h link) = [Download link]"
    by (simp add: downloadAndInstallUpdate_def split: sum.splits)
  ultimately show ?thesis by simp
qed

theorem accepted_update_downloads_latest_witness:
  "filter is_download (checkForUpdates example_host) =
     [Download (Some (JStr ''https://example/app-1.3.0.exe''))]"
proof -
  have fetched: "fetch example_host manifest_url = Inr (Inr example_manifest)"
    by (simp add: example_host_def)
  have version: "get_property example_manifest ''version'' = Inr (Some (JStr ''1.3.0''))"
    by (simp add: example_manifest_def)
  have newer: "semver_gt (Some (JStr ''1.3.0'')) (Some (JStr (getVersion example_host))) = Inr True"
    by (simp add: example_host_def semver_gt_1_3_0_1_2_0)
  have latest: "get_property example_manifest ''latest'' =
      Inr (Some (JStr ''https://example/app-1.3.0.exe''))"
    by (simp add: example_manifest_def)
  have accepted: "showMessageBox example_host (UpdateQuestion (Some (JStr ''1.3.0''))) = 0"
    by (simp add: example_host_def)
  from accepted_update_downloads_latest [OF fetched version newer latest accepted]
  show ?thesis by (rule conjunct2)
qed

text \<open>
  C8: in a cycle that asks the question and gets an answer other than the first button
  (the "no" button is index 1), nothing follows the question: the cycle consists of the
  request and the question, and no download is started.
\<close>

theorem declined_question_ends_the_cycle:
  assumes "ShowMessageBox (UpdateQuestion v) \<in> set (checkForUpdates h)"
    and "showMessageBox h (UpdateQuestion v) \<noteq> 0"
  shows "checkForUpdates h = [Fetch manifest_url, ShowMessageBox (UpdateQuestion v)]"
  using assms
  by (auto simp add: checkForUpdates_def try_block_def question_not_in_install
      split: sum.splits if_splits)

theorem declined_question_ends_the_cycle_witness:
  "checkForUpdates declining_host =
     [Fetch manifest_url, ShowMessageBox (UpdateQuestion (Some (JStr ''1.3.0'')))]"
proof -
  have "checkForUpdates declining_host =
      [Fetch manifest_url, ShowMessageBox (UpdateQuestion (Some (JStr ''1.3.0'')))]"
    by (simp add: checkForUpdates_def try_block_def example_defs declining_host_def
          semver_gt_1_3_0_1_2_0)
  then have "ShowMessageBox (UpdateQuestion (Some (JStr ''1.3.0''))) \<in> set (checkForUpdates declining_host)"
    by simp
  moreover have "showMessageBox declining_host (UpdateQuestion (Some (JStr ''1.3.0''))) \<noteq> 0"
    by (simp add: example_defs declining_host_def)
  ultimately show ?thesis
    by (rule declined_question_ends_the_cycle)
qed

text \<open>
  C4: when the download is rejected, the step logs the error and shows the error dialog;
  the launcher is not called and the process does not exit.
\<close>

theorem download_failure_shows_error_only:
  assumes "download h downloadLink = Inl e"
  shows "downloadAndInstallUpdate h downloadLink =
           [ShowMessageBox DownloadingInfo, Download downloadLink,
            ConsoleError ''Error downloading update:'' e, ShowMessageBox DownloadErrorBox]"
  using assms by (simp add: downloadAndInstallUpdate_def)

theorem download_failure_shows_error_only_witness:
  "downloadAndInstallUpdate failing_download_host (Some (JStr ''https://example/app-1.3.0.exe'')) =
     [ShowMessageBox DownloadingInfo, Download (Some (JStr ''https://example/app-1.3.0.exe'')),
      ConsoleError ''Error downloading update:'' (Rejected ''interrupted''),
      ShowMessageBox DownloadErrorBox]"
  using download_failure_shows_error_only [of failing_download_host
      "Some (JStr ''https://example/app-1.3.0.exe'')" "Rejected ''interrupted''"]
  by (simp add: example_defs failing_download_host_def)

text \<open>
  C5: after a successful download the process exits, with code 0 and once, exactly when
  the launch reports no error; when it reports one, the error is logged and the process
  does not exit.
\<close>

theorem exit_iff_launch_succeeded:
  assumes "download h downloadLink = Inr filePath"
  shows "filter is_exit (downloadAndInstallUpdate h downloadLink) =
           (case exec h (start_command filePath) of
              Inl err \<Rightarrow> []
            | Inr stdout \<Rightarrow> [AppExit 0])
         \<and> (\<forall>err. exec h (start_command filePath) = Inl err \<longrightarrow>
               ConsoleError ''Error launching installer:'' err
                 \<in> set (downloadAndInstallUpdate h downloadLink))"
  using assms by (simp add: downloadAndInstallUpdate_def split: sum.splits)

theorem exit_iff_launch_succeeded_witness:
  "filter is_exit (downloadAndInstallUpdate example_host None) = [AppExit 0]
   \<and> filter is_exit (downloadAndInstallUpdate failing_launch_host None) = []
   \<and> ConsoleError ''Error launching installer:'' (Rejected ''Command failed'')
        \<in> set (downloadAndInstallUpdate failing_launch_host None)"
  using exit_iff_launch_succeeded [of example_host None "''C:/Users/me/Downloads/app-1.3.0.exe''"]
    exit_iff_launch_succeeded [of failing_launch_host None "''C:/Users/me/Downloads/app-1.3.0.exe''"]
  by (simp add: example_defs failing_launch_host_def)

text \<open>
  C6: after a successful download the launcher is called exactly once, with the command
  line that starts the file whose path the download returned.
\<close>

theorem one_launch_of_the_downloaded_file:
  assumes "download h downloadLink = Inr filePath"
  shows "launches (downloadAndInstallUpdate h downloadLink) = [start_command filePath]
         \<and> map launch_target (launches (downloadAndInstallUpdate h downloadLink)) = [filePath]"
  using assms
  by (simp add: downloadAndInstallUpdate_def start_command_def launch_target_def
      split: sum.splits)

theorem one_launch_of_the_downloaded_file_witness:
  "map launch_target (launches (downloadAndInstallUpdate example_host None)) =
     [''C:/Users/me/Downloads/app-1.3.0.exe'']"
  using one_launch_of_the_downloaded_file [of example_host None
      "''C:/Users/me/Downloads/app-1.3.0.exe''"]
  by (simp add: example_defs start_command_def launch_target_def)

text \<open>
  C10 does not hold of the code: on a window-open request the handler throws a
  \<^verbatim>\<open>ReferenceError\<close> at \<^verbatim>\<open>require\<close>, which the module does not bind, before it hands
  the address to the system browser and before it returns its answer.
\<close>

theorem handleExternalLinks_throws:
  "handleExternalLinks main_process_globals \<lparr>url = ''https://example.com/''\<rparr> =
     ([], Inl (ReferenceError ''require is not defined''))"
  by (simp add: handleExternalLinks_def module_scope_def main_process_globals_def)

end
